theory Spec2Isabelle
  imports Complex_Main
begin

section \<open>The layout planner of descwl\_shear\_sims\<close>

text \<open>
  This theory embeds \<^verbatim>\<open>descwl_shear_sims/layout/layout.py\<close>: the class
  \<^verbatim>\<open>Layout\<close> with its constructor \<^verbatim>\<open>__init__\<close> and its method
  \<^verbatim>\<open>get_shifts\<close>.

  Conventions of the embedding.
  \<^item> Python floats are read as exact reals (\<^typ>\<open>real\<close>) and \<^verbatim>\<open>np.pi\<close> as
    \<^term>\<open>pi\<close>: an arithmetic expression of the source denotes its exact value.
    Rounding, NaN, infinities, the underflow of a product or a square to
    \<^verbatim>\<open>0.0\<close> and the \<^verbatim>\<open>OverflowError\<close> of \<^verbatim>\<open>**\<close> are outside the model.
    The theorems below therefore give the area that the constructor stores as
    the expression the source evaluates, and they test an area against zero
    only where it is given as such. None of them derives the sign of a stored
    area from the sign of \<^verbatim>\<open>pixel_scale\<close>: in floating point the square of a
    small positive number can be \<^verbatim>\<open>0.0\<close>, so such a conclusion would hold of
    the reals and not of the program.
  \<^item> \<^verbatim>\<open>coadd_dim\<close> is \<^verbatim>\<open>int | None\<close>, hence \<^typ>\<open>int option\<close>.
  \<^item> Every \<^verbatim>\<open>raise\<close> is a value of the type \<open>error\<close> on the left of a sum.
  \<^item> \<^verbatim>\<open>warnings.warn\<close> appends to a list of messages that the constructor
    returns beside its result.
  \<^item> An attribute of \<^verbatim>\<open>self\<close> that was never assigned is \<open>Unset\<close>; reading
    it raises Python's \<^verbatim>\<open>AttributeError\<close>.
  \<^item> The modules \<^verbatim>\<open>..wcs\<close>, \<^verbatim>\<open>.shifts\<close>, \<^verbatim>\<open>..constants\<close> and numpy's
    random state are not part of the embedded file. They are parameters: records
    of functions and constants, over which every theorem is universally
    quantified unless it names a concrete one.
\<close>

subsection \<open>Data\<close>

text \<open>
  All errors of \<^verbatim>\<open>layout.py\<close> are \<^verbatim>\<open>ValueError\<close>s told apart by their message:
  \<^item> \<open>MissingParameter\<close>: \<^verbatim>\<open>"Please input `coadd_dim` for ... layout"\<close> and
    \<^verbatim>\<open>"send sep= for layout ..."\<close>;
  \<^item> \<open>InvalidLayout\<close>: \<^verbatim>\<open>"layout_name can only be ..."\<close> and \<^verbatim>\<open>"bad layout: ..."\<close>;
  \<^item> \<open>InvalidGeometry\<close>: \<^verbatim>\<open>"nonpositive area for layout ..."\<close>.

  \<open>AttributeError\<close> is Python's own error for reading an attribute that was
  never assigned, and \<open>External\<close> carries an exception raised inside one of the
  modules that are parameters here; it propagates unchanged.
\<close>

datatype error =
    MissingParameter
  | InvalidLayout
  | InvalidGeometry
  | AttributeError
  | External string

datatype 'a attr = Unset | Assigned 'a

type_synonym shift = "real \<times> real"

text \<open>
  The object \<^verbatim>\<open>self\<close>. \<^verbatim>\<open>pixel_scale\<close> and \<^verbatim>\<open>layout_name\<close> are assigned on
  every path through the constructor; the other attributes only on some.
\<close>

record ('w, 'b) Layout =
  pixel_scale :: real
  layout_name :: string
  area :: "real attr"
  coadd_dim :: "int option attr"
  buff :: "real attr"
  wcs :: "'w attr"
  bbox :: "'b attr"

text \<open>
  The module \<^verbatim>\<open>..wcs\<close>: both functions are called as
  \<^verbatim>\<open>f(coadd_dim, pixel_scale=pixel_scale)\<close> and return a pair \<^verbatim>\<open>(wcs, bbox)\<close>
  or raise.
\<close>

record ('w, 'b) wcs_module =
  make_coadd_dm_wcs :: "int option \<Rightarrow> real \<Rightarrow> string + ('w \<times> 'b)"
  make_coadd_dm_wcs_simple :: "int option \<Rightarrow> real \<Rightarrow> string + ('w \<times> 'b)"

text \<open>
  The module \<^verbatim>\<open>.shifts\<close>, the two spacing constants of \<^verbatim>\<open>..constants\<close> and the
  method \<^verbatim>\<open>poisson\<close> of the random state. \<open>'r\<close> is the state of the random
  source: every function that draws from it returns the state it leaves.
  The generators take their keyword arguments in the order of the call sites:
  \<^verbatim>\<open>rng, sep, pixel_scale\<close> for the pair, \<^verbatim>\<open>rng, dim, buff, pixel_scale, spacing\<close>
  for the lattices and \<^verbatim>\<open>rng, dim, buff, pixel_scale, size\<close> for the random ones.
\<close>

record 'r shifts_module =
  GRID_SPACING :: real
  HEX_SPACING :: real
  poisson :: "'r \<Rightarrow> real \<Rightarrow> nat \<times> 'r"
  get_pair_shifts :: "'r \<Rightarrow> real \<Rightarrow> real \<Rightarrow> (string + shift list) \<times> 'r"
  get_grid_shifts ::
    "'r \<Rightarrow> int option \<Rightarrow> real \<Rightarrow> real \<Rightarrow> real \<Rightarrow> (string + shift list) \<times> 'r"
  get_hex_shifts ::
    "'r \<Rightarrow> int option \<Rightarrow> real \<Rightarrow> real \<Rightarrow> real \<Rightarrow> (string + shift list) \<times> 'r"
  get_random_shifts ::
    "'r \<Rightarrow> int option \<Rightarrow> real \<Rightarrow> real \<Rightarrow> nat \<Rightarrow> (string + shift list) \<times> 'r"
  get_random_disk_shifts ::
    "'r \<Rightarrow> int option \<Rightarrow> real \<Rightarrow> real \<Rightarrow> nat \<Rightarrow> (string + shift list) \<times> 'r"

subsection \<open>The constructor\<close>

definition clamp_warning :: string where
  "clamp_warning = ''dim - 2*buff <= 2, force it to 2.''"

text \<open>
  Lines 91 to 104: store \<^verbatim>\<open>coadd_dim\<close> and \<^verbatim>\<open>buff\<close>, then build the geometry with
  the function that \<^verbatim>\<open>simple_coadd_bbox\<close> selects. An exception of that function
  leaves \<^verbatim>\<open>__init__\<close> as it is.
\<close>

definition store_geometry ::
  "('w, 'b) wcs_module \<Rightarrow> ('w, 'b) Layout \<Rightarrow> int option \<Rightarrow> real \<Rightarrow> real \<Rightarrow> bool
     \<Rightarrow> error + ('w, 'b) Layout" where
  "store_geometry wm self cdim bf ps simple_coadd_bbox =
     (let self1 = self\<lparr>coadd_dim := Assigned cdim, buff := Assigned bf\<rparr> in
      case (if simple_coadd_bbox then make_coadd_dm_wcs_simple wm cdim ps
            else make_coadd_dm_wcs wm cdim ps) of
        Inl e \<Rightarrow> Inl (External e)
      | Inr (w, b) \<Rightarrow> Inr (self1\<lparr>wcs := Assigned w, bbox := Assigned b\<rparr>))"

text \<open>
  \<^verbatim>\<open>Layout.__init__(layout_name, coadd_dim, buff, pixel_scale, world_origin,
  simple_coadd_bbox)\<close>. The result is the list of warnings emitted and either
  the error raised or the object. \<^verbatim>\<open>world_origin\<close> is accepted and never used.
  Each area is the exact value of the expression the source evaluates in
  floating point (see the conventions above).
\<close>

definition Layout_init ::
  "('w, 'b) wcs_module \<Rightarrow> string \<Rightarrow> int option \<Rightarrow> real \<Rightarrow> real \<Rightarrow> 'o \<Rightarrow> bool
     \<Rightarrow> string list \<times> (error + ('w, 'b) Layout)" where
  "Layout_init wm name cdim bf ps world_origin simple_coadd_bbox =
     (let self = \<lparr>pixel_scale = ps, layout_name = name, area = Unset,
                  coadd_dim = Unset, buff = Unset, wcs = Unset, bbox = Unset\<rparr> in
      if name = ''random'' then
        (case cdim of
           None \<Rightarrow> ([], Inl MissingParameter)
         | Some d \<Rightarrow>
             if real_of_int d - 2 * bf < 2 then
               ([clamp_warning],
                store_geometry wm (self\<lparr>area := Assigned ((2 * ps / 60)\<^sup>2)\<rparr>)
                  cdim bf ps simple_coadd_bbox)
             else
               ([],
                store_geometry wm
                  (self\<lparr>area := Assigned (((real_of_int d - 2 * bf) * ps / 60)\<^sup>2)\<rparr>)
                  cdim bf ps simple_coadd_bbox))
      else if name = ''random_disk'' then
        (case cdim of
           None \<Rightarrow> ([], Inl MissingParameter)
         | Some d \<Rightarrow>
             if real_of_int d - 2 * bf < 2 then
               (let radius = 2 * ps / 60 in
                ([clamp_warning],
                 store_geometry wm (self\<lparr>area := Assigned (pi * radius\<^sup>2)\<rparr>)
                   cdim bf ps simple_coadd_bbox))
             else
               (let radius = (real_of_int d / 2 - bf) * ps / 60 in
                ([],
                 store_geometry wm (self\<lparr>area := Assigned (pi * radius\<^sup>2)\<rparr>)
                   cdim bf ps simple_coadd_bbox)))
      else if name = ''hex'' then
        ([], store_geometry wm (self\<lparr>area := Assigned 0\<rparr>) cdim bf ps simple_coadd_bbox)
      else if name = ''grid'' then
        ([], store_geometry wm (self\<lparr>area := Assigned 0\<rparr>) cdim bf ps simple_coadd_bbox)
      else if name = ''pair'' then
        ([], Inr self)
      else
        ([], Inl InvalidLayout))"

subsection \<open>Shift generation\<close>

text \<open>
  The result of a generator of \<^verbatim>\<open>.shifts\<close> as the result of \<^verbatim>\<open>get_shifts\<close>:
  its exception propagates, its shifts are returned, and \<^verbatim>\<open>self\<close> is passed
  through.
\<close>

definition from_generator ::
  "(string + shift list) \<times> 'r \<Rightarrow> 'l \<Rightarrow> (error + shift list) \<times> 'l \<times> 'r" where
  "from_generator out self =
     (case out of (res, rng1) \<Rightarrow>
        ((case res of Inl e \<Rightarrow> Inl (External e) | Inr shifts \<Rightarrow> Inr shifts), self, rng1))"

text \<open>
  \<^verbatim>\<open>Layout.get_shifts(rng, density, sep)\<close>. The method runs on the object
  \<^verbatim>\<open>self\<close> and on the random state, both mutable in Python, so the model
  returns both beside the result: the shifts or the error raised, then
  \<^verbatim>\<open>self\<close> and the random state as the call leaves them. The default of
  \<^verbatim>\<open>density\<close> is filled in by the caller; \<^verbatim>\<open>sep=None\<close> is \<^term>\<open>None\<close>.
  Keyword arguments are evaluated from left to right, so \<^verbatim>\<open>self.coadd_dim\<close> is
  read before \<^verbatim>\<open>self.buff\<close>, and both after the Poisson draw.
\<close>

definition get_shifts ::
  "'r shifts_module \<Rightarrow> ('w, 'b) Layout \<Rightarrow> 'r \<Rightarrow> real \<Rightarrow> real option
     \<Rightarrow> (error + shift list) \<times> ('w, 'b) Layout \<times> 'r" where
  "get_shifts sm self rng density sep =
     (if layout_name self = ''pair'' then
        (case sep of
           None \<Rightarrow> (Inl MissingParameter, self, rng)
         | Some s \<Rightarrow> from_generator (get_pair_shifts sm rng s (pixel_scale self)) self)
      else if layout_name self = ''grid'' then
        (let sep1 = (case sep of None \<Rightarrow> GRID_SPACING sm | Some s \<Rightarrow> s) in
         case coadd_dim self of
           Unset \<Rightarrow> (Inl AttributeError, self, rng)
         | Assigned d \<Rightarrow>
             (case buff self of
                Unset \<Rightarrow> (Inl AttributeError, self, rng)
              | Assigned b \<Rightarrow>
                  from_generator (get_grid_shifts sm rng d b (pixel_scale self) sep1) self))
      else if layout_name self = ''hex'' then
        (let sep1 = (case sep of None \<Rightarrow> HEX_SPACING sm | Some s \<Rightarrow> s) in
         case coadd_dim self of
           Unset \<Rightarrow> (Inl AttributeError, self, rng)
         | Assigned d \<Rightarrow>
             (case buff self of
                Unset \<Rightarrow> (Inl AttributeError, self, rng)
              | Assigned b \<Rightarrow>
                  from_generator (get_hex_shifts sm rng d b (pixel_scale self) sep1) self))
      else if layout_name self = ''random'' then
        (case area self of
           Unset \<Rightarrow> (Inl AttributeError, self, rng)
         | Assigned a \<Rightarrow>
             if a \<le> 0 then (Inl InvalidGeometry, self, rng)
             else
               (let nobj_mean = (if density \<noteq> 0 then max (a * density) 1 else 0) in
                case poisson sm rng nobj_mean of (nobj, rng1) \<Rightarrow>
                  (case coadd_dim self of
                     Unset \<Rightarrow> (Inl AttributeError, self, rng1)
                   | Assigned d \<Rightarrow>
                       (case buff self of
                          Unset \<Rightarrow> (Inl AttributeError, self, rng1)
                        | Assigned b \<Rightarrow>
                            from_generator
                              (get_random_shifts sm rng1 d b (pixel_scale self) nobj) self))))
      else if layout_name self = ''random_disk'' then
        (case area self of
           Unset \<Rightarrow> (Inl AttributeError, self, rng)
         | Assigned a \<Rightarrow>
             if a \<le> 0 then (Inl InvalidGeometry, self, rng)
             else
               (let nobj_mean = (if density \<noteq> 0 then max (a * density) 1 else 0) in
                case poisson sm rng nobj_mean of (nobj, rng1) \<Rightarrow>
                  (case coadd_dim self of
                     Unset \<Rightarrow> (Inl AttributeError, self, rng1)
                   | Assigned d \<Rightarrow>
                       (case buff self of
                          Unset \<Rightarrow> (Inl AttributeError, self, rng1)
                        | Assigned b \<Rightarrow>
                            from_generator
                              (get_random_disk_shifts sm rng1 d b (pixel_scale self) nobj)
                              self))))
      else (Inl InvalidLayout, self, rng))"

text \<open>
  A caller that invokes \<^verbatim>\<open>get_shifts\<close> once per entry of a list of
  \<^verbatim>\<open>(density, sep)\<close> arguments on the same object and the same random state,
  catching each exception and going on. It returns the results in order, the
  object and the random state at the end.
\<close>

fun get_shifts_calls ::
  "'r shifts_module \<Rightarrow> ('w, 'b) Layout \<Rightarrow> 'r \<Rightarrow> (real \<times> real option) list
     \<Rightarrow> (error + shift list) list \<times> ('w, 'b) Layout \<times> 'r" where
  "get_shifts_calls sm self rng [] = ([], self, rng)"
| "get_shifts_calls sm self rng ((density, sep) # calls) =
     (case get_shifts sm self rng density sep of (res, self1, rng1) \<Rightarrow>
        (case get_shifts_calls sm self1 rng1 calls of (ress, self2, rng2) \<Rightarrow>
           (res # ress, self2, rng2)))"

subsection \<open>Sample collaborators\<close>

text \<open>
  Concrete stand-ins for the absent modules, used only to run the model on
  concrete inputs. \<open>sample_wcs\<close> fails on an absent dimension, as arithmetic on
  \<^verbatim>\<open>None\<close> does, and otherwise returns the pixel scale as the coordinate
  system and the pixel interval \<open>(0, dim - 1)\<close> as the box.
\<close>

definition sample_wcs :: "(real, int \<times> int) wcs_module" where
  "sample_wcs =
     \<lparr>make_coadd_dm_wcs =
        (\<lambda>cdim ps. case cdim of None \<Rightarrow> Inl ''TypeError'' | Some d \<Rightarrow> Inr (ps, (0, d - 1))),
      make_coadd_dm_wcs_simple =
        (\<lambda>cdim ps. case cdim of None \<Rightarrow> Inl ''TypeError'' | Some d \<Rightarrow> Inr (ps, (0, d - 1)))\<rparr>"

text \<open>
  \<open>recording_shifts\<close> runs on a random state that is the list of the means of
  all Poisson draws made so far, oldest first. A draw with mean zero gives
  zero, any other draw gives one. The random generators return as many shifts
  as they are asked for, the lattices a single point, the pair two points
  \<open>sep\<close> apart.
\<close>

definition recording_shifts :: "real list shifts_module" where
  "recording_shifts =
     \<lparr>GRID_SPACING = 19 / 2,
      HEX_SPACING = 19 / 2,
      poisson = (\<lambda>rng mean. (if mean = 0 then 0 else 1, rng @ [mean])),
      get_pair_shifts = (\<lambda>rng sep ps. (Inr [(- sep / 2, 0), (sep / 2, 0)], rng)),
      get_grid_shifts = (\<lambda>rng cdim bf ps spacing. (Inr [(0, 0)], rng)),
      get_hex_shifts = (\<lambda>rng cdim bf ps spacing. (Inr [(0, 0)], rng)),
      get_random_shifts = (\<lambda>rng cdim bf ps size. (Inr (replicate size (0, 0)), rng)),
      get_random_disk_shifts = (\<lambda>rng cdim bf ps size. (Inr (replicate size (0, 0)), rng))\<rparr>"

section \<open>Properties of the constructor\<close>

lemma store_geometry_result:
  "store_geometry wm self cdim bf ps simple =
     (case (if simple then make_coadd_dm_wcs_simple wm cdim ps
            else make_coadd_dm_wcs wm cdim ps) of
        Inl e \<Rightarrow> Inl (External e)
      | Inr (w, b) \<Rightarrow>
          Inr (self\<lparr>coadd_dim := Assigned cdim, buff := Assigned bf,
                     wcs := Assigned w, bbox := Assigned b\<rparr>))"
  by (simp add: store_geometry_def Let_def)

text \<open>
  Claim C3. Constructing with \<^verbatim>\<open>layout_name = 'random'\<close> and
  \<^verbatim>\<open>coadd_dim - 2*buff < 2\<close> emits the clamp warning and raises nothing of its
  own: the only exception that can leave the constructor is one of the
  geometry function, and otherwise the object is returned with
  \<^verbatim>\<open>area = (2*pixel_scale/60)**2\<close>, the area of a usable side of two pixels.
\<close>

theorem random_clamp_warns_and_sets_area:
  assumes "real_of_int d - 2 * bf < 2"
  shows "Layout_init wm ''random'' (Some d) bf ps world_origin simple =
           ([clamp_warning],
            case (if simple then make_coadd_dm_wcs_simple wm (Some d) ps
                  else make_coadd_dm_wcs wm (Some d) ps) of
              Inl e \<Rightarrow> Inl (External e)
            | Inr (w, b) \<Rightarrow>
                Inr \<lparr>pixel_scale = ps, layout_name = ''random'',
                     area = Assigned ((2 * ps / 60)\<^sup>2),
                     coadd_dim = Assigned (Some d), buff = Assigned bf,
                     wcs = Assigned w, bbox = Assigned b\<rparr>)"
  using assms
  by (simp add: Layout_init_def store_geometry_result Let_def split: sum.splits prod.splits)

theorem random_clamp_warns_and_sets_area_witness:
  "real_of_int 10 - 2 * 5 < 2 \<and>
   Layout_init sample_wcs ''random'' (Some 10) 5 (1 / 5) () False =
     ([clamp_warning],
      Inr \<lparr>pixel_scale = 1 / 5, layout_name = ''random'',
           area = Assigned ((2 * (1 / 5) / 60)\<^sup>2),
           coadd_dim = Assigned (Some 10), buff = Assigned 5,
           wcs = Assigned (1 / 5), bbox = Assigned (0, 9)\<rparr>)"
proof -
  have small: "real_of_int 10 - 2 * 5 < 2" by simp
  show ?thesis
    using small
      random_clamp_warns_and_sets_area
        [OF small, where wm = sample_wcs and ps = "1 / 5" and world_origin = "()"
          and simple = False]
    by (simp add: sample_wcs_def)
qed

text \<open>
  Claim C8. Constructing with \<^verbatim>\<open>layout_name = 'pair'\<close> returns at once: for
  every geometry module, every \<^verbatim>\<open>coadd_dim\<close> and every \<^verbatim>\<open>buff\<close> the object holds
  \<^verbatim>\<open>pixel_scale\<close> and \<^verbatim>\<open>layout_name\<close> and no other attribute, no warning is
  emitted and nothing is raised. The result does not depend on the geometry
  module, so no geometry function is called.
\<close>

theorem pair_short_circuits:
  "Layout_init wm ''pair'' cdim bf ps world_origin simple =
     ([], Inr \<lparr>pixel_scale = ps, layout_name = ''pair'', area = Unset,
               coadd_dim = Unset, buff = Unset, wcs = Unset, bbox = Unset\<rparr>)"
  by (simp add: Layout_init_def)

text \<open>
  Claim C1, at \<^verbatim>\<open>Layout('random_disk', coadd_dim=10, buff=5, pixel_scale=0.2)\<close>.
  The claim asks for a radius of one pixel, that is for the area
  \<open>pi * (1 * pixel_scale / 60)\<^sup>2\<close>. The clamped branch of the constructor sets
  \<^verbatim>\<open>radius = 2.*pixel_scale/60\<close>, a radius of two pixels, and the area stored
  is four times the one claimed.
\<close>

theorem random_disk_clamp_stores_radius_two:
  "Layout_init sample_wcs ''random_disk'' (Some 10) 5 (1 / 5) () False =
     ([clamp_warning],
      Inr \<lparr>pixel_scale = 1 / 5, layout_name = ''random_disk'',
           area = Assigned (pi * (2 * (1 / 5) / 60)\<^sup>2),
           coadd_dim = Assigned (Some 10), buff = Assigned 5,
           wcs = Assigned (1 / 5), bbox = Assigned (0, 9)\<rparr>) \<and>
   pi * (2 * (1 / 5) / 60)\<^sup>2 = 4 * (pi * (1 * (1 / 5) / 60)\<^sup>2) \<and>
   pi * (2 * (1 / 5) / 60)\<^sup>2 \<noteq> pi * (1 * (1 / 5) / 60)\<^sup>2"
  by (simp add: Layout_init_def store_geometry_result sample_wcs_def Let_def power2_eq_square)

text \<open>
  Claim C2, at \<^verbatim>\<open>Layout('grid', coadd_dim=None)\<close> and
  \<^verbatim>\<open>Layout('hex', coadd_dim=None)\<close>. The branches for \<^verbatim>\<open>'random'\<close> and
  \<^verbatim>\<open>'random_disk'\<close> test \<^verbatim>\<open>coadd_dim is None\<close> and raise; the branches for
  \<^verbatim>\<open>'grid'\<close> and \<^verbatim>\<open>'hex'\<close> do not. There the constructor sets
  \<^verbatim>\<open>area = 0\<close>, stores the absent dimension and hands it to the geometry
  function, whose outcome is the constructor's: for no geometry module is the
  error \<open>MissingParameter\<close>.
\<close>

theorem grid_hex_absent_dim_not_checked:
  "Layout_init wm ''grid'' None bf ps world_origin simple =
     ([], store_geometry wm
            \<lparr>pixel_scale = ps, layout_name = ''grid'', area = Assigned 0,
             coadd_dim = Unset, buff = Unset, wcs = Unset, bbox = Unset\<rparr>
            None bf ps simple) \<and>
   Layout_init wm ''hex'' None bf ps world_origin simple =
     ([], store_geometry wm
            \<lparr>pixel_scale = ps, layout_name = ''hex'', area = Assigned 0,
             coadd_dim = Unset, buff = Unset, wcs = Unset, bbox = Unset\<rparr>
            None bf ps simple) \<and>
   snd (Layout_init wm ''grid'' None bf ps world_origin simple) \<noteq> Inl MissingParameter \<and>
   snd (Layout_init wm ''hex'' None bf ps world_origin simple) \<noteq> Inl MissingParameter \<and>
   snd (Layout_init sample_wcs ''grid'' None 0 (1 / 5) () False) = Inl (External ''TypeError'')"
  by (auto simp add: Layout_init_def store_geometry_result sample_wcs_def Let_def
      split: sum.splits prod.splits)

section \<open>Properties of shift generation\<close>

lemma fst_from_generator_not_own_error:
  "fst (from_generator out self) \<noteq> Inl MissingParameter"
  "fst (from_generator out self) \<noteq> Inl InvalidGeometry"
  "fst (from_generator out self) \<noteq> Inl InvalidLayout"
  by (simp_all add: from_generator_def split: prod.splits sum.splits)

lemma fst_from_generator:
  "fst (from_generator out self) =
     (case fst out of Inl e \<Rightarrow> Inl (External e) | Inr shifts \<Rightarrow> Inr shifts)"
  by (simp add: from_generator_def split: prod.splits)

lemma self_from_generator: "fst (snd (from_generator out self)) = self"
  by (simp add: from_generator_def split: prod.splits)

lemma get_shifts_self: "fst (snd (get_shifts sm self rng density sep)) = self"
  by (simp add: get_shifts_def self_from_generator Let_def
      split: option.splits attr.splits prod.splits)

text \<open>
  Claim C4. On an object with \<^verbatim>\<open>layout_name\<close> \<^verbatim>\<open>'random'\<close> or
  \<^verbatim>\<open>'random_disk'\<close> and a positive \<^verbatim>\<open>area\<close>, a call of \<^verbatim>\<open>get_shifts\<close> with
  \<^verbatim>\<open>density != 0\<close> makes its Poisson draw with the mean
  \<open>max (area * density) 1\<close>, which is at least one, on the random state it
  was given, and asks the generator of its kind for the number of points
  drawn.
\<close>

theorem random_poisson_mean_at_least_one:
  assumes "layout_name self = ''random'' \<or> layout_name self = ''random_disk''"
    and "area self = Assigned a" and "0 < a" and "density \<noteq> 0"
    and "coadd_dim self = Assigned d" and "buff self = Assigned b"
  shows "get_shifts sm self rng density sep =
           (case poisson sm rng (max (a * density) 1) of (nobj, rng1) \<Rightarrow>
              from_generator
                ((if layout_name self = ''random'' then get_random_shifts sm
                  else get_random_disk_shifts sm) rng1 d b (pixel_scale self) nobj)
                self) \<and>
         1 \<le> max (a * density) 1"
  using assms by (auto simp add: get_shifts_def Let_def split: prod.splits)

text \<open>
  The witness runs the recording random source on an object whose area times
  the density is \<open>1 / 1000\<close>: the one mean recorded is \<open>1\<close>.
\<close>

theorem random_poisson_mean_at_least_one_witness:
  "get_shifts recording_shifts
     \<lparr>pixel_scale = 1 / 5, layout_name = ''random'', area = Assigned (1 / 100),
      coadd_dim = Assigned (Some 30), buff = Assigned 0,
      wcs = Assigned (1 / 5 :: real), bbox = Assigned (0 :: int, 29 :: int)\<rparr>
     [] (1 / 10) None =
   (Inr [(0, 0)],
    \<lparr>pixel_scale = 1 / 5, layout_name = ''random'', area = Assigned (1 / 100),
      coadd_dim = Assigned (Some 30), buff = Assigned 0,
      wcs = Assigned (1 / 5), bbox = Assigned (0, 29)\<rparr>,
    [1])"
  using random_poisson_mean_at_least_one
    [where self = "\<lparr>pixel_scale = 1 / 5, layout_name = ''random'', area = Assigned (1 / 100),
        coadd_dim = Assigned (Some 30), buff = Assigned 0,
        wcs = Assigned (1 / 5 :: real), bbox = Assigned (0 :: int, 29 :: int)\<rparr>"
      and a = "1 / 100" and density = "1 / 10" and d = "Some 30" and b = 0
      and sm = recording_shifts and rng = "[]" and sep = None]
  by (simp add: recording_shifts_def from_generator_def)

text \<open>
  Claim C5. On an object with \<^verbatim>\<open>layout_name\<close> \<^verbatim>\<open>'random'\<close> or
  \<^verbatim>\<open>'random_disk'\<close> and a positive \<^verbatim>\<open>area\<close>, a call of \<^verbatim>\<open>get_shifts\<close> with
  \<^verbatim>\<open>density = 0\<close> makes its Poisson draw with mean zero and asks the generator
  of its kind for the number of points drawn. Given what the two absent
  collaborators are known for (a Poisson draw with mean zero is zero; asked
  for zero points, the generator returns no shift), the result is the empty
  sequence, whatever the random state.
\<close>

theorem random_zero_density_empty:
  assumes "layout_name self = ''random'' \<or> layout_name self = ''random_disk''"
    and "area self = Assigned a" and "0 < a"
    and "coadd_dim self = Assigned d" and "buff self = Assigned b"
    and "fst (poisson sm rng 0) = 0"
    and "fst ((if layout_name self = ''random'' then get_random_shifts sm
               else get_random_disk_shifts sm)
              (snd (poisson sm rng 0)) d b (pixel_scale self) 0) = Inr []"
  shows "get_shifts sm self rng 0 sep =
           (case poisson sm rng 0 of (nobj, rng1) \<Rightarrow>
              from_generator
                ((if layout_name self = ''random'' then get_random_shifts sm
                  else get_random_disk_shifts sm) rng1 d b (pixel_scale self) nobj)
                self) \<and>
         fst (get_shifts sm self rng 0 sep) = Inr []"
proof -
  obtain nobj rng1 where draw: "poisson sm rng 0 = (nobj, rng1)"
    by (cases "poisson sm rng 0")
  from assms(6) draw have zero: "nobj = 0" by simp
  have run: "get_shifts sm self rng 0 sep =
      from_generator
        ((if layout_name self = ''random'' then get_random_shifts sm
          else get_random_disk_shifts sm) rng1 d b (pixel_scale self) nobj) self"
    using assms(1-5) draw by (auto simp add: get_shifts_def Let_def)
  have "fst (from_generator
        ((if layout_name self = ''random'' then get_random_shifts sm
          else get_random_disk_shifts sm) rng1 d b (pixel_scale self) 0) self) = Inr []"
    using assms(7) draw by (simp add: fst_from_generator)
  with run zero draw show ?thesis by simp
qed

theorem random_zero_density_empty_witness:
  "get_shifts recording_shifts
     \<lparr>pixel_scale = 1 / 5, layout_name = ''random_disk'', area = Assigned (1 / 100),
      coadd_dim = Assigned (Some 30), buff = Assigned 0,
      wcs = Assigned (1 / 5 :: real), bbox = Assigned (0 :: int, 29 :: int)\<rparr>
     [7, 3] 0 None =
   (Inr [],
    \<lparr>pixel_scale = 1 / 5, layout_name = ''random_disk'', area = Assigned (1 / 100),
      coadd_dim = Assigned (Some 30), buff = Assigned 0,
      wcs = Assigned (1 / 5), bbox = Assigned (0, 29)\<rparr>,
    [7, 3, 0])"
  using random_zero_density_empty
    [where self = "\<lparr>pixel_scale = 1 / 5, layout_name = ''random_disk'',
        area = Assigned (1 / 100), coadd_dim = Assigned (Some 30), buff = Assigned 0,
        wcs = Assigned (1 / 5 :: real), bbox = Assigned (0 :: int, 29 :: int)\<rparr>"
      and a = "1 / 100" and d = "Some 30" and b = 0
      and sm = recording_shifts and rng = "[7, 3]" and sep = None]
  by (simp add: recording_shifts_def from_generator_def)

text \<open>
  Claim C6. On an object with \<^verbatim>\<open>layout_name\<close> \<^verbatim>\<open>'random'\<close> or
  \<^verbatim>\<open>'random_disk'\<close> whose \<^verbatim>\<open>area\<close> is zero or negative, \<^verbatim>\<open>get_shifts\<close> raises
  \<open>InvalidGeometry\<close> for every density, separation and random state. The area
  is not clamped, the random state is the one passed in (no draw was made),
  no shift is returned and the object is unchanged.
\<close>

theorem nonpositive_area_raises:
  assumes "layout_name self = ''random'' \<or> layout_name self = ''random_disk''"
    and "area self = Assigned a" and "a \<le> 0"
  shows "get_shifts sm self rng density sep = (Inl InvalidGeometry, self, rng)"
  using assms by (auto simp add: get_shifts_def)

text \<open>
  The witness is the object that \<^verbatim>\<open>Layout('random', coadd_dim=10,
  pixel_scale=0)\<close> constructs, whose area is zero.
\<close>

theorem nonpositive_area_raises_witness:
  "Layout_init sample_wcs ''random'' (Some 10) 0 0 () False =
     ([], Inr \<lparr>pixel_scale = 0, layout_name = ''random'', area = Assigned 0,
               coadd_dim = Assigned (Some 10), buff = Assigned 0,
               wcs = Assigned 0, bbox = Assigned (0, 9)\<rparr>) \<and>
   get_shifts recording_shifts
     \<lparr>pixel_scale = 0, layout_name = ''random'', area = Assigned 0,
      coadd_dim = Assigned (Some 10), buff = Assigned 0,
      wcs = Assigned (0 :: real), bbox = Assigned (0 :: int, 9 :: int)\<rparr>
     [] 80 None =
   (Inl InvalidGeometry,
    \<lparr>pixel_scale = 0, layout_name = ''random'', area = Assigned 0,
      coadd_dim = Assigned (Some 10), buff = Assigned 0,
      wcs = Assigned 0, bbox = Assigned (0, 9)\<rparr>,
    [])"
  using nonpositive_area_raises
    [where self = "\<lparr>pixel_scale = 0, layout_name = ''random'', area = Assigned 0,
        coadd_dim = Assigned (Some 10), buff = Assigned 0,
        wcs = Assigned (0 :: real), bbox = Assigned (0 :: int, 9 :: int)\<rparr>"
      and a = 0 and sm = recording_shifts and rng = "[]" and density = 80 and sep = None]
  by (simp add: Layout_init_def store_geometry_result sample_wcs_def)

text \<open>
  Claim C7. On an object with \<^verbatim>\<open>layout_name = 'pair'\<close>, \<^verbatim>\<open>get_shifts\<close> raises
  \<open>MissingParameter\<close> exactly when \<^verbatim>\<open>sep\<close> is \<^verbatim>\<open>None\<close>, and then before any
  draw; with a separation it returns what the pair generator returns for
  that separation and the object's pixel scale.
\<close>

theorem pair_missing_sep_iff:
  assumes "layout_name self = ''pair''"
  shows "(fst (get_shifts sm self rng density sep) = Inl MissingParameter) = (sep = None) \<and>
         get_shifts sm self rng density sep =
           (case sep of
              None \<Rightarrow> (Inl MissingParameter, self, rng)
            | Some s \<Rightarrow> from_generator (get_pair_shifts sm rng s (pixel_scale self)) self)"
  using assms
  by (simp add: get_shifts_def fst_from_generator_not_own_error split: option.splits)

theorem pair_missing_sep_iff_witness:
  "get_shifts recording_shifts
     \<lparr>pixel_scale = 1 / 5, layout_name = ''pair'', area = Unset, coadd_dim = Unset,
      buff = Unset, wcs = (Unset :: real attr), bbox = (Unset :: (int \<times> int) attr)\<rparr>
     [] 80 None =
   (Inl MissingParameter,
    \<lparr>pixel_scale = 1 / 5, layout_name = ''pair'', area = Unset, coadd_dim = Unset,
      buff = Unset, wcs = Unset, bbox = Unset\<rparr>,
    []) \<and>
   get_shifts recording_shifts
     \<lparr>pixel_scale = 1 / 5, layout_name = ''pair'', area = Unset, coadd_dim = Unset,
      buff = Unset, wcs = (Unset :: real attr), bbox = (Unset :: (int \<times> int) attr)\<rparr>
     [] 80 (Some 4) =
   (Inr [(- 2, 0), (2, 0)],
    \<lparr>pixel_scale = 1 / 5, layout_name = ''pair'', area = Unset, coadd_dim = Unset,
      buff = Unset, wcs = Unset, bbox = Unset\<rparr>,
    [])"
  using pair_missing_sep_iff
    [where self = "\<lparr>pixel_scale = 1 / 5, layout_name = ''pair'', area = Unset,
        coadd_dim = Unset, buff = Unset, wcs = (Unset :: real attr),
        bbox = (Unset :: (int \<times> int) attr)\<rparr>"
      and sm = recording_shifts and rng = "[]" and density = 80 and sep = None]
    pair_missing_sep_iff
    [where self = "\<lparr>pixel_scale = 1 / 5, layout_name = ''pair'', area = Unset,
        coadd_dim = Unset, buff = Unset, wcs = (Unset :: real attr),
        bbox = (Unset :: (int \<times> int) attr)\<rparr>"
      and sm = recording_shifts and rng = "[]" and density = 80 and sep = "Some 4"]
  by (simp add: recording_shifts_def from_generator_def)

text \<open>
  Claim C9. \<^verbatim>\<open>get_shifts\<close> leaves the object as it found it, whether it
  returns or raises: every attribute, assigned or not, is what it was. The
  same holds after any sequence of calls on the same object, and each call of
  the sequence yields one result.
\<close>

theorem get_shifts_keeps_object:
  "fst (snd (get_shifts sm self rng density sep)) = self \<and>
   fst (snd (get_shifts_calls sm self rng calls)) = self \<and>
   length (fst (get_shifts_calls sm self rng calls)) = length calls"
proof -
  have calls: "fst (snd (get_shifts_calls sm self rng calls)) = self \<and>
      length (fst (get_shifts_calls sm self rng calls)) = length calls"
  proof (induction calls arbitrary: rng)
    case Nil
    show ?case by simp
  next
    case (Cons c calls)
    obtain density1 sep1 where c: "c = (density1, sep1)" by (cases c)
    obtain res self1 rng1 where
      step: "get_shifts sm self rng density1 sep1 = (res, self1, rng1)"
      by (cases "get_shifts sm self rng density1 sep1") auto
    have same: "self1 = self"
      using get_shifts_self [of sm self rng density1 sep1] step by simp
    obtain ress self2 rng2 where
      rest: "get_shifts_calls sm self rng1 calls = (ress, self2, rng2)"
      by (cases "get_shifts_calls sm self rng1 calls") auto
    from Cons.IH [of rng1] rest have "self2 = self" and "length ress = length calls"
      by simp_all
    with c step same rest show ?case by simp
  qed
  with get_shifts_self [of sm self rng density sep] show ?thesis by simp
qed

end
